theory Spec2Isabelle
  imports Main "HOL-Library.Word"
begin

section \<open>NPLMiniRuntime: addresses, runtime states and the runtime pool\<close>

text \<open>
  A shallow embedding of \<^verbatim>\<open>Core/NPLMiniRuntime.hpp\<close>: the file name (address) parser and
  serializer \<^verbatim>\<open>NPLFileNameT\<close>, the mailbox and dispatch loop of \<^verbatim>\<open>CNPLMiniState\<close>, and the
  pool \<^verbatim>\<open>CNPLMiniRuntimeT\<close>. Names follow the C++ source.

  Conventions of the embedding:
  \<^item> a \<^verbatim>\<open>const char*\<close> argument is a \<open>string\<close> (the characters before the terminator); where
    the source accepts a null pointer it is a \<open>string option\<close>;
  \<^item> a read through a pointer that leaves the buffer, a null or dangling object pointer, and
    the other undefined behaviours the source can reach are values of the type \<open>fault\<close>;
  \<^item> C++ \<^verbatim>\<open>int\<close> counters are 32-bit words (read with \<open>sint\<close>); string indices are
    natural numbers (inputs shorter than \<open>2 ^ 31\<close> characters);
  \<^item> objects held by \<^verbatim>\<open>shared_ptr\<close> live in a store from addresses to objects; the
    address returned by \<^verbatim>\<open>new\<close> is an argument of the operation that allocates;
  \<^item> the mutexes are not modelled: the embedding is the sequential behaviour of one thread.
\<close>

datatype fault = OutOfBounds nat | NullPointer | InvalidPointer nat | PopEmptyQueue | InvalidIterator

subsection \<open>NPLFileNameT\<close>

record NPLFileName =
  sRuntimeStateName :: string
  sNID :: string
  sRelativePath :: string
  sDNSServerName :: string

definition NUL :: char where
  "NUL = CHR 0x00"

text \<open>
  \<open>char_at s i\<close> is the read \<^verbatim>\<open>sFilePath[i]\<close>: the buffer holds the characters of \<open>s\<close>
  and then the terminator; any index beyond the terminator is outside the buffer.
\<close>

definition char_at :: "string \<Rightarrow> nat \<Rightarrow> char option" where
  "char_at s i = (if i < length s then Some (s ! i) else if i = length s then Some NUL else None)"

text \<open>Assignment of a C string to a \<^verbatim>\<open>std::string\<close> copies up to the first terminator.\<close>

definition c_str :: "string \<Rightarrow> string" where
  "c_str s = takeWhile (\<lambda>c. c \<noteq> NUL) s"

text \<open>\<^verbatim>\<open>x.assign(sFilePath + off, n)\<close>, for a range that was scanned before.\<close>

definition assign :: "string \<Rightarrow> nat \<Rightarrow> nat \<Rightarrow> string" where
  "assign s off n = take n (drop off s)"

text \<open>
  The scanning loops \<^verbatim>\<open>while (sFilePath[i] != c && sFilePath[i] != '\0') i++;\<close>
  return the index where they stop, or the fault of the first read outside the buffer.
\<close>

function scan :: "(char \<Rightarrow> bool) \<Rightarrow> string \<Rightarrow> nat \<Rightarrow> fault + nat" where
  "scan stop s i =
     (case char_at s i of
        None \<Rightarrow> Inl (OutOfBounds i)
      | Some c \<Rightarrow> if stop c \<or> c = NUL then Inr i else scan stop s (i + 1))"
  by pat_completeness auto
termination
  by (relation "measure (\<lambda>(stop, s, i). Suc (length s) - i)")
     (auto simp: char_at_def NUL_def split: if_splits)

declare scan.simps [simp del]

text \<open>
  \<^verbatim>\<open>SetRelativePath(sPath, nCount)\<close>: with \<^verbatim>\<open>nCount <= 0\<close> the whole C string is taken,
  otherwise \<^verbatim>\<open>nCount\<close> characters; then every backslash becomes a forward slash.
\<close>

definition SetRelativePath :: "NPLFileName \<Rightarrow> string \<Rightarrow> int \<Rightarrow> fault + NPLFileName" where
  "SetRelativePath self sPath nCount =
     (let slash = (\<lambda>c. if c = CHR 0x5C then CHR ''/'' else c) in
      if nCount \<le> 0 then Inr (self\<lparr>sRelativePath := map slash (c_str sPath)\<rparr>)
      else if nat nCount \<le> Suc (length sPath)
        then Inr (self\<lparr>sRelativePath := map slash (take (nat nCount) (sPath @ [NUL]))\<rparr>)
      else Inl (OutOfBounds (Suc (length sPath))))"

definition ToString :: "NPLFileName \<Rightarrow> string" where
  "ToString self =
     (let output = [];
          output = (if sRuntimeStateName self \<noteq> []
                    then output @ ''('' @ sRuntimeStateName self @ '')'' else output);
          output = (if sNID self \<noteq> [] then output @ sNID self else output);
          output = (if sRelativePath self \<noteq> [] then output @ sRelativePath self else output);
          output = (if sDNSServerName self \<noteq> []
                    then output @ ''@'' @ sDNSServerName self else output)
      in output)"

text \<open>
  \<^verbatim>\<open>FromString\<close> from the comment "get namespace" on: \<open>i0\<close> is the value of \<^verbatim>\<open>i\<close>
  there and \<open>nNIDIndex\<close> the start of the network id.
\<close>

definition FromString_tail :: "NPLFileName \<Rightarrow> string \<Rightarrow> nat \<Rightarrow> nat \<Rightarrow> fault + NPLFileName" where
  "FromString_tail self s i0 nNIDIndex =
     (case scan (\<lambda>c. c = CHR '':'') s i0 of
        Inl f \<Rightarrow> Inl f
      | Inr i \<Rightarrow>
          if char_at s i = Some NUL
          then Inr (self\<lparr>sNID := [], sRelativePath := assign s nNIDIndex (i - nNIDIndex),
                          sDNSServerName := []\<rparr>)
          else
            let self = (if i > nNIDIndex then self\<lparr>sNID := assign s nNIDIndex (i - nNIDIndex)\<rparr>
                        else self\<lparr>sNID := []\<rparr>);
                nRelativePathIndex = i + 1
            in (case scan (\<lambda>c. c = CHR ''@'') s (i + 1) of
                  Inl f \<Rightarrow> Inl f
                | Inr j \<Rightarrow>
                   (case SetRelativePath self (drop nRelativePathIndex s)
                           (int j - int nRelativePathIndex) of
                      Inl f \<Rightarrow> Inl f
                    | Inr self \<Rightarrow>
                        if char_at s j = Some NUL then Inr (self\<lparr>sDNSServerName := []\<rparr>)
                        else
                          let nDNSServerIndex = j + 1
                          in (case scan (\<lambda>c. False) s (j + 1) of
                                Inl f \<Rightarrow> Inl f
                              | Inr k \<Rightarrow>
                                  Inr (self\<lparr>sDNSServerName :=
                                              assign s nDNSServerIndex (k - nDNSServerIndex)\<rparr>)))))"

definition FromString :: "NPLFileName \<Rightarrow> string \<Rightarrow> fault + NPLFileName" where
  "FromString self s =
     (if char_at s 0 = Some NUL
      then Inr (self\<lparr>sRuntimeStateName := [], sNID := [], sRelativePath := [],
                      sDNSServerName := []\<rparr>)
      else if char_at s 0 = Some (CHR ''('')
      then (case scan (\<lambda>c. c = CHR '')'') s 1 of
              Inl f \<Rightarrow> Inl f
            | Inr j \<Rightarrow>
                let i = j + 1;
                    self = (if \<not> (i = 4 \<and> char_at s 1 = Some (CHR ''g'')
                                      \<and> char_at s 2 = Some (CHR ''l''))
                            then self\<lparr>sRuntimeStateName := assign s 1 (i - 2)\<rparr>
                            else self\<lparr>sRuntimeStateName := []\<rparr>)
                in FromString_tail self s i i)
      else FromString_tail self s 0 0)"

text \<open>The default constructor, and the constructor from a string (\<open>Parse\<close> in the specification).\<close>

definition NPLFileName_new :: NPLFileName where
  "NPLFileName_new = \<lparr>sRuntimeStateName = [], sNID = [], sRelativePath = [], sDNSServerName = []\<rparr>"

definition Parse :: "string \<Rightarrow> fault + NPLFileName" where
  "Parse filename = FromString NPLFileName_new filename"

subsection \<open>NPLMiniMessage and CNPLMiniState\<close>

type_synonym cint = "32 word"
type_synonym sid = nat
type_synonym hid = nat

text \<open>
  A \<^verbatim>\<open>boost::function\<close> is empty or holds a target, named here by a number. The enumerators
  of \<^verbatim>\<open>NPL::NPLReturnCode\<close> and \<^verbatim>\<open>ParaEngine::PluginActType\<close> are declared in headers
  outside this file; only the ones this file uses appear, and their numeric values are left
  open: a result of \<^verbatim>\<open>Activate\<close> is an enumerator or an integer literal.
\<close>

datatype callback = EmptyCallback | Callback hid
datatype PluginActType = PluginActType_STATE
datatype NPLReturnCode = NPL_OK | NPL_Error | NPL_FailedToLoadFile
datatype retval = Code NPLReturnCode | Literal int
datatype exn = bad_function_call | handler_exception nat

record NPLMiniMessage =
  m_sFilename :: string
  m_sCode :: string
  m_type :: cint

definition NPLMiniMessage_new :: "string option \<Rightarrow> string option \<Rightarrow> cint \<Rightarrow> NPLMiniMessage" where
  "NPLMiniMessage_new sNPLFilename sCode nCodeLength =
     \<lparr>m_sFilename = (case sNPLFilename of None \<Rightarrow> [] | Some f \<Rightarrow> c_str f),
      m_sCode = (case sCode of None \<Rightarrow> []
                 | Some c \<Rightarrow> if sint nCodeLength \<le> 0 then c_str c else c_str c),
      m_type = 0\<rparr>"

record CNPLMiniState =
  m_current_msg :: "string option"
  m_current_msg_length :: cint
  m_name :: string
  m_input_queue :: "NPLMiniMessage list"
  m_file_handlers_map :: "string \<rightharpoonup> callback"
  m_processed_msg_count :: cint

definition CNPLMiniState_new :: "string option \<Rightarrow> CNPLMiniState" where
  "CNPLMiniState_new name =
     \<lparr>m_current_msg = None, m_current_msg_length = 0,
      m_name = (case name of None \<Rightarrow> [] | Some n \<Rightarrow> c_str n),
      m_input_queue = [], m_file_handlers_map = Map.empty, m_processed_msg_count = 0\<rparr>"

definition activate ::
  "CNPLMiniState \<Rightarrow> string option \<Rightarrow> string option \<Rightarrow> cint \<Rightarrow> NPLReturnCode \<times> CNPLMiniState" where
  "activate self sNPLFilename sCode nCodeLength =
     (NPL_OK, self\<lparr>m_input_queue :=
                      m_input_queue self @ [NPLMiniMessage_new sNPLFilename sCode nCodeLength]\<rparr>)"

text \<open>
  \<^verbatim>\<open>RegisterFileHandler\<close> without \<^verbatim>\<open>USE_BOOST_SIGNAL_FILE_HANDLER\<close> (the file leaves the
  macro undefined): one handler per file name, stored by assignment.
\<close>

definition RegisterFileHandler ::
  "CNPLMiniState \<Rightarrow> string option \<Rightarrow> callback \<Rightarrow> bool \<times> CNPLMiniState" where
  "RegisterFileHandler self filename fileCallback =
     (case filename of
        None \<Rightarrow> (False, self)
      | Some f \<Rightarrow>
          (True, self\<lparr>m_file_handlers_map := (m_file_handlers_map self)(c_str f \<mapsto> fileCallback)\<rparr>))"

definition SetCurrentMessage :: "CNPLMiniState \<Rightarrow> string option \<Rightarrow> cint \<Rightarrow> CNPLMiniState" where
  "SetCurrentMessage self msg nLength =
     self\<lparr>m_current_msg := msg, m_current_msg_length := nLength\<rparr>"

subsection \<open>CNPLMiniRuntimeT: the store and the pool\<close>

text \<open>
  \<open>heap\<close> is the store of state objects. \<open>m_runtime_states\<close> is the \<^verbatim>\<open>std::set\<close> ordered
  by address: a list in ascending order without repetition, which is also the order of
  iteration.
\<close>

record CNPLMiniRuntime =
  heap :: "sid \<rightharpoonup> CNPLMiniState"
  m_runtime_state_main :: "sid option"
  m_runtime_states :: "sid list"
  m_temp_rts_pool :: "sid list"
  m_active_state_map :: "string \<rightharpoonup> sid"

text \<open>
  A callback is arbitrary code of the embedding program: it receives the activation type and
  the address of the dispatching state, may change the whole runtime, and returns or raises.
  \<open>handlers\<close> gives the behaviour of every callback target. A \<open>call\<close> records one callback
  invocation that returned: the callback, the state, and the current message it could read.
\<close>

datatype hresult = Returns CNPLMiniRuntime | Raises exn CNPLMiniRuntime
datatype 'a outcome = Normal 'a CNPLMiniRuntime | Throw exn CNPLMiniRuntime | Fault fault

type_synonym handlers = "hid \<Rightarrow> PluginActType \<Rightarrow> sid \<Rightarrow> CNPLMiniRuntime \<Rightarrow> hresult"
type_synonym call = "callback \<times> sid \<times> string"

definition put :: "sid \<Rightarrow> CNPLMiniState \<Rightarrow> CNPLMiniRuntime \<Rightarrow> CNPLMiniRuntime" where
  "put p st rt = rt\<lparr>heap := (heap rt)(p \<mapsto> st)\<rparr>"

text \<open>Calling a \<^verbatim>\<open>boost::function\<close>: an empty one throws \<^verbatim>\<open>bad_function_call\<close>.\<close>

definition invoke :: "handlers \<Rightarrow> callback \<Rightarrow> sid \<Rightarrow> CNPLMiniRuntime \<Rightarrow> hresult" where
  "invoke H handler this rt =
     (case handler of
        EmptyCallback \<Rightarrow> Raises bad_function_call rt
      | Callback h \<Rightarrow> H h PluginActType_STATE this rt)"

text \<open>The destructor of the guard \<^verbatim>\<open>CCurrentMessage\<close>, which runs on return and on unwinding.\<close>

definition CCurrentMessage_leave :: "sid \<Rightarrow> CNPLMiniRuntime \<Rightarrow> CNPLMiniRuntime option" where
  "CCurrentMessage_leave pState rt =
     (case heap rt pState of
        None \<Rightarrow> None
      | Some self \<Rightarrow> Some (put pState (SetCurrentMessage self None 0) rt))"

text \<open>
  \<^verbatim>\<open>ProcessMsg\<close>. Its C++ result is the constant 0, which \<^verbatim>\<open>Process\<close> ignores; the model
  returns the callback invocations made instead.
\<close>

definition ProcessMsg ::
  "handlers \<Rightarrow> sid \<Rightarrow> NPLMiniMessage \<Rightarrow> CNPLMiniRuntime \<Rightarrow> call list outcome" where
  "ProcessMsg H this msg rt =
     (case heap rt this of
        None \<Rightarrow> Fault (InvalidPointer this)
      | Some self \<Rightarrow>
          let self = self\<lparr>m_processed_msg_count := m_processed_msg_count self + 1\<rparr>;
              rt = put this self rt
          in if m_type msg = 0 then
               (case m_file_handlers_map self (m_sFilename msg) of
                  None \<Rightarrow> Normal [] rt
                | Some handler \<Rightarrow>
                    let rt = put this (SetCurrentMessage self (Some (m_sCode msg))
                                         (of_nat (length (m_sCode msg)))) rt
                    in (case invoke H handler this rt of
                          Returns rt \<Rightarrow>
                            (case CCurrentMessage_leave this rt of
                               None \<Rightarrow> Fault (InvalidPointer this)
                             | Some rt \<Rightarrow> Normal [(handler, this, m_sCode msg)] rt)
                        | Raises e rt \<Rightarrow>
                            (case CCurrentMessage_leave this rt of
                               None \<Rightarrow> Fault (InvalidPointer this)
                             | Some rt \<Rightarrow> Throw e rt)))
             else Normal [] rt)"

text \<open>
  The loop of \<^verbatim>\<open>Process\<close>. A callback may enqueue into the mailbox being drained, so the
  loop need not end: the result \<open>None\<close> is a call that does not return.
\<close>

partial_function (option) Process_loop ::
  "handlers \<Rightarrow> sid \<Rightarrow> cint \<Rightarrow> call list \<Rightarrow> CNPLMiniRuntime \<Rightarrow> (cint \<times> call list) outcome option" where
  "Process_loop H this nCount calls rt =
     (case heap rt this of
        None \<Rightarrow> Some (Fault (InvalidPointer this))
      | Some self \<Rightarrow>
          (case m_input_queue self of
             [] \<Rightarrow> Some (Normal (nCount, calls) rt)
           | msg # _ \<Rightarrow>
               (case ProcessMsg H this msg rt of
                  Fault f \<Rightarrow> Some (Fault f)
                | Throw e rt \<Rightarrow> Some (Throw e rt)
                | Normal cs rt \<Rightarrow>
                    (case heap rt this of
                       None \<Rightarrow> Some (Fault (InvalidPointer this))
                     | Some self \<Rightarrow>
                         (case m_input_queue self of
                            [] \<Rightarrow> Some (Fault PopEmptyQueue)
                          | _ # rest \<Rightarrow>
                              Process_loop H this (nCount + 1) (calls @ cs)
                                (put this (self\<lparr>m_input_queue := rest\<rparr>) rt))))))"

declare Process_loop.simps [code]

definition Process ::
  "handlers \<Rightarrow> sid \<Rightarrow> CNPLMiniRuntime \<Rightarrow> (cint \<times> call list) outcome option" where
  "Process H this rt = Process_loop H this 0 [] rt"

text \<open>Insertion into and removal from the \<^verbatim>\<open>std::set\<close> of states.\<close>

definition set_insert :: "sid \<Rightarrow> sid list \<Rightarrow> sid list" where
  "set_insert p xs = (if p \<in> set xs then xs else insort p xs)"

definition set_erase :: "sid \<Rightarrow> sid list \<Rightarrow> sid list" where
  "set_erase p xs = remove1 p xs"

definition GetRuntimeState :: "CNPLMiniRuntime \<Rightarrow> string \<Rightarrow> sid option" where
  "GetRuntimeState rt name =
     (if name = [] then m_runtime_state_main rt else m_active_state_map rt name)"

definition CreateRuntimeState :: "CNPLMiniRuntime \<Rightarrow> string \<Rightarrow> sid \<Rightarrow> sid \<times> CNPLMiniRuntime" where
  "CreateRuntimeState rt name fresh =
     (case GetRuntimeState rt name of
        Some runtimestate \<Rightarrow> (runtimestate, rt)
      | None \<Rightarrow>
          let rt = put fresh (CNPLMiniState_new (Some name)) rt;
              rt = rt\<lparr>m_runtime_states := set_insert fresh (m_runtime_states rt)\<rparr>;
              rt = (if name \<noteq> []
                    then rt\<lparr>m_active_state_map := (m_active_state_map rt)(name \<mapsto> fresh)\<rparr>
                    else rt)
          in (fresh, rt))"

definition CNPLMiniRuntime_empty :: CNPLMiniRuntime where
  "CNPLMiniRuntime_empty =
     \<lparr>heap = Map.empty, m_runtime_state_main = None, m_runtime_states = [],
      m_temp_rts_pool = [], m_active_state_map = Map.empty\<rparr>"

definition Init :: "CNPLMiniRuntime \<Rightarrow> sid \<Rightarrow> CNPLMiniRuntime" where
  "Init rt fresh =
     (if m_runtime_state_main rt = None
      then (let (p, rt) = CreateRuntimeState rt ''main'' fresh
            in rt\<lparr>m_runtime_state_main := Some p\<rparr>)
      else rt)"

definition CreateGetRuntimeState :: "CNPLMiniRuntime \<Rightarrow> string \<Rightarrow> sid \<Rightarrow> sid \<times> CNPLMiniRuntime" where
  "CreateGetRuntimeState rt name fresh =
     (case GetRuntimeState rt name of
        Some runtimestate \<Rightarrow> (runtimestate, rt)
      | None \<Rightarrow> CreateRuntimeState rt name fresh)"

definition DeleteRuntimeState ::
  "CNPLMiniRuntime \<Rightarrow> sid option \<Rightarrow> fault + bool \<times> CNPLMiniRuntime" where
  "DeleteRuntimeState rt runtime_state =
     (case runtime_state of
        None \<Rightarrow> Inr (True, rt)
      | Some p \<Rightarrow>
          if p \<in> set (m_runtime_states rt)
          then Inr (True, rt\<lparr>m_runtime_states := set_erase p (m_runtime_states rt)\<rparr>)
          else (case heap rt p of
                  None \<Rightarrow> Inl (InvalidPointer p)
                | Some st \<Rightarrow>
                    if m_name st \<noteq> []
                    then Inr (False, rt\<lparr>m_active_state_map :=
                                            (m_active_state_map rt)(m_name st := None)\<rparr>)
                    else Inr (False, rt)))"

definition DeleteState ::
  "CNPLMiniRuntime \<Rightarrow> sid option \<Rightarrow> fault + bool \<times> CNPLMiniRuntime" where
  "DeleteState rt pRuntime_state =
     (case pRuntime_state of
        None \<Rightarrow> Inr (False, rt)
      | Some p \<Rightarrow> DeleteRuntimeState rt (Some p))"

definition Activate_async ::
  "CNPLMiniRuntime \<Rightarrow> sid \<Rightarrow> string \<Rightarrow> string option \<Rightarrow> cint \<Rightarrow> fault + retval \<times> CNPLMiniRuntime" where
  "Activate_async rt p filepath code nLength =
     (case heap rt p of
        None \<Rightarrow> Inl (InvalidPointer p)
      | Some st \<Rightarrow>
          (let (r, st) = activate st (Some filepath) code nLength in Inr (Code r, put p st rt)))"

definition Activate ::
  "CNPLMiniRuntime \<Rightarrow> sid option \<Rightarrow> string option \<Rightarrow> string option \<Rightarrow> cint
   \<Rightarrow> fault + retval \<times> CNPLMiniRuntime" where
  "Activate rt pRuntimeState sNeuronFile code nLength =
     (case sNeuronFile of
        None \<Rightarrow> Inr (Code NPL_FailedToLoadFile, rt)
      | Some f \<Rightarrow>
          (case Parse f of
             Inl e \<Rightarrow> Inl e
           | Inr FullName \<Rightarrow>
               (case pRuntimeState of
                  None \<Rightarrow>
                    (case m_runtime_state_main rt of
                       None \<Rightarrow> Inl NullPointer
                     | Some main \<Rightarrow> Activate_async rt main (sRelativePath FullName) code nLength)
                | Some from \<Rightarrow>
                    if sNID FullName = [] then
                      (if sRuntimeStateName FullName \<noteq> [] then
                         (case GetRuntimeState rt (sRuntimeStateName FullName) of
                            Some rts \<Rightarrow> Activate_async rt rts (sRelativePath FullName) code nLength
                          | None \<Rightarrow> Inr (Literal (- 1), rt))
                       else Activate_async rt from (sRelativePath FullName) code nLength)
                    else Inr (Code NPL_Error, rt))))"

text \<open>
  \<^verbatim>\<open>Run\<close>: the states are appended to the member \<^verbatim>\<open>m_temp_rts_pool\<close>, the loop walks that
  vector between two iterators taken once, and the vector is cleared at the end. A change of
  the vector during the walk invalidates the iterators. The parameter \<^verbatim>\<open>bToEnd\<close> is not
  used by the source. The model returns the \<^verbatim>\<open>Process\<close> calls made, in order, each with the
  state, the count it returned and its callback invocations.
\<close>

fun Run_loop ::
  "handlers \<Rightarrow> sid list \<Rightarrow> sid list \<Rightarrow> (sid \<times> cint \<times> call list) list \<Rightarrow> CNPLMiniRuntime
   \<Rightarrow> (sid \<times> cint \<times> call list) list outcome option" where
  "Run_loop H pool [] trace rt = Some (Normal trace rt)"
| "Run_loop H pool (p # ps) trace rt =
     (case Process H p rt of
        None \<Rightarrow> None
      | Some (Fault f) \<Rightarrow> Some (Fault f)
      | Some (Throw e rt) \<Rightarrow> Some (Throw e rt)
      | Some (Normal (n, cs) rt) \<Rightarrow>
          if m_temp_rts_pool rt = pool then Run_loop H pool ps (trace @ [(p, n, cs)]) rt
          else Some (Fault InvalidIterator))"

definition Run ::
  "handlers \<Rightarrow> CNPLMiniRuntime \<Rightarrow> (sid \<times> cint \<times> call list) list outcome option" where
  "Run H rt =
     (let rt = rt\<lparr>m_temp_rts_pool := m_temp_rts_pool rt @ m_runtime_states rt\<rparr>;
          pool = m_temp_rts_pool rt
      in (case Run_loop H pool pool [] rt of
            Some (Normal trace rt) \<Rightarrow> Some (Normal trace (rt\<lparr>m_temp_rts_pool := []\<rparr>))
          | other \<Rightarrow> other))"

subsection \<open>Vocabulary of the statements\<close>

text \<open>
  \<open>handled fm msg\<close> is the callback that \<^verbatim>\<open>ProcessMsg\<close> finds for a message in the handler
  table \<open>fm\<close>. A callback \<open>returns_quietly\<close> on a state when it always returns and leaves the
  object of that state as it found it (it may change everything else); it \<open>raises_quietly\<close>
  when it always raises the given exception and leaves that object as it found it.
  A message is \<open>deliverable\<close> when it has no handler or one that returns quietly.
  \<open>calls_of this fm q\<close> lists, in the order of the queue \<open>q\<close>, one invocation for every message
  that has a handler and none for the others.
\<close>

definition handled :: "(string \<rightharpoonup> callback) \<Rightarrow> NPLMiniMessage \<Rightarrow> callback option" where
  "handled fm msg = (if m_type msg = 0 then fm (m_sFilename msg) else None)"

definition returns_quietly :: "handlers \<Rightarrow> callback \<Rightarrow> sid \<Rightarrow> bool" where
  "returns_quietly H cb this \<longleftrightarrow>
     (\<forall>rt. \<exists>rt'. invoke H cb this rt = Returns rt' \<and> heap rt' this = heap rt this)"

definition raises_quietly :: "handlers \<Rightarrow> callback \<Rightarrow> sid \<Rightarrow> exn \<Rightarrow> bool" where
  "raises_quietly H cb this e \<longleftrightarrow>
     (\<forall>rt. \<exists>rt'. invoke H cb this rt = Raises e rt' \<and> heap rt' this = heap rt this)"


definition calls_of :: "sid \<Rightarrow> (string \<rightharpoonup> callback) \<Rightarrow> NPLMiniMessage list \<Rightarrow> call list" where
  "calls_of this fm q =
     concat (map (\<lambda>msg. case handled fm msg of None \<Rightarrow> [] | Some cb \<Rightarrow> [(cb, this, m_sCode msg)]) q)"

text \<open>Two concrete runtimes: after construction (main state at address 1), and with a second
  state named \<open>w1\<close> at address 2.\<close>

definition rt_init :: CNPLMiniRuntime where
  "rt_init = Init CNPLMiniRuntime_empty 1"

definition rt_w1 :: CNPLMiniRuntime where
  "rt_w1 = snd (CreateRuntimeState rt_init ''w1'' 2)"

text \<open>
  Example callbacks and states: \<open>quiet_handlers\<close> return at once; with \<open>failing_handlers\<close>
  target 0 returns and every other target raises. \<open>rt_fifo\<close> has four messages queued in the
  main state, one of them for a file nobody handles; \<open>rt_fail\<close> has three, the second for a
  file whose handler raises; \<open>st_reg\<close> has one handler registered.
\<close>

definition quiet_handlers :: handlers where
  "quiet_handlers h a this rt = Returns rt"

definition failing_handlers :: handlers where
  "failing_handlers h a this rt = (if h = 0 then Returns rt else Raises (handler_exception h) rt)"



definition st_fail :: CNPLMiniState where
  "st_fail = (CNPLMiniState_new (Some ''main''))
     \<lparr>m_input_queue := [NPLMiniMessage_new (Some ''ok.lua'') (Some ''1'') 0,
                        NPLMiniMessage_new (Some ''bad.lua'') (Some ''2'') 0,
                        NPLMiniMessage_new (Some ''ok.lua'') (Some ''3'') 0],
      m_file_handlers_map := [''ok.lua'' \<mapsto> Callback 0, ''bad.lua'' \<mapsto> Callback 7]\<rparr>"

definition rt_fail :: CNPLMiniRuntime where
  "rt_fail = put 1 st_fail rt_init"

definition st_reg :: CNPLMiniState where
  "st_reg = (CNPLMiniState_new (Some ''main''))\<lparr>m_file_handlers_map := [''f.lua'' \<mapsto> Callback 0]\<rparr>"






text \<open>
  \<open>alphabetic\<close>: every character is an ASCII letter. \<open>names_in_pool\<close>: every entry of the
  name map \<^verbatim>\<open>m_active_state_map\<close> is in the set \<^verbatim>\<open>m_runtime_states\<close>.
\<close>

definition alphabetic :: "string \<Rightarrow> bool" where
  "alphabetic s \<longleftrightarrow>
     (\<forall>c \<in> set s. (65 \<le> (of_char c :: nat) \<and> (of_char c :: nat) \<le> 90)
                  \<or> (97 \<le> (of_char c :: nat) \<and> (of_char c :: nat) \<le> 122))"

definition names_in_pool :: "CNPLMiniRuntime \<Rightarrow> bool" where
  "names_in_pool rt \<longleftrightarrow>
     (\<forall>name p. m_active_state_map rt name = Some p \<longrightarrow> p \<in> set (m_runtime_states rt))"

section \<open>Properties\<close>

subsection \<open>Evaluation and basic facts\<close>

lemmas parse_eval = Parse_def FromString_def FromString_tail_def scan.simps char_at_def NUL_def
  assign_def NPLFileName_new_def SetRelativePath_def c_str_def ToString_def

lemmas pool_eval = rt_init_def rt_w1_def Init_def CNPLMiniRuntime_empty_def CreateRuntimeState_def
  GetRuntimeState_def put_def set_insert_def set_erase_def CNPLMiniState_new_def c_str_def NUL_def
  DeleteRuntimeState_def DeleteState_def

lemma heap_put [simp]: "heap (put p st rt) = (heap rt)(p \<mapsto> st)"
  by (simp add: put_def)

lemma pool_put [simp]:
  "m_temp_rts_pool (put p st rt) = m_temp_rts_pool rt"
  "m_runtime_states (put p st rt) = m_runtime_states rt"
  "m_active_state_map (put p st rt) = m_active_state_map rt"
  "m_runtime_state_main (put p st rt) = m_runtime_state_main rt"
  by (simp_all add: put_def)

lemma calls_of_Nil [simp]: "calls_of this fm [] = []"
  by (simp add: calls_of_def)


lemma calls_of_append:
  "calls_of this fm (q @ q') = calls_of this fm q @ calls_of this fm q'"
  by (simp add: calls_of_def)


lemma ProcessMsg_returns:
  assumes "heap rt this = Some self" and "handled (m_file_handlers_map self) msg = Some cb"
    and "returns_quietly H cb this"
  shows "\<exists>rt'. ProcessMsg H this msg rt = Normal [(cb, this, m_sCode msg)] rt'
           \<and> heap rt' this = Some (self\<lparr>m_processed_msg_count := m_processed_msg_count self + 1,
                                        m_current_msg := None, m_current_msg_length := 0\<rparr>)"
proof -
  let ?self1 = "self\<lparr>m_processed_msg_count := m_processed_msg_count self + 1\<rparr>"
  let ?self2 = "SetCurrentMessage ?self1 (Some (m_sCode msg)) (of_nat (length (m_sCode msg)))"
  let ?rt2 = "put this ?self2 (put this ?self1 rt)"
  from assms(3) obtain rt3 where r: "invoke H cb this ?rt2 = Returns rt3"
    and h: "heap rt3 this = heap ?rt2 this"
    unfolding returns_quietly_def by blast
  from h have h3: "heap rt3 this = Some ?self2" by simp
  have ty: "m_type msg = 0" and fm: "m_file_handlers_map self (m_sFilename msg) = Some cb"
    using assms(2) by (auto simp: handled_def split: if_splits)
  have "ProcessMsg H this msg rt =
          Normal [(cb, this, m_sCode msg)] (put this (SetCurrentMessage ?self2 None 0) rt3)"
    using assms(1) ty fm r h3 by (simp add: ProcessMsg_def Let_def CCurrentMessage_leave_def)
  then show ?thesis by (auto simp: SetCurrentMessage_def)
qed

lemma ProcessMsg_raises:
  assumes "heap rt this = Some self" and "handled (m_file_handlers_map self) msg = Some cb"
    and "raises_quietly H cb this e"
  shows "\<exists>rt'. ProcessMsg H this msg rt = Throw e rt'
           \<and> heap rt' this = Some (self\<lparr>m_processed_msg_count := m_processed_msg_count self + 1,
                                        m_current_msg := None, m_current_msg_length := 0\<rparr>)"
proof -
  let ?self1 = "self\<lparr>m_processed_msg_count := m_processed_msg_count self + 1\<rparr>"
  let ?self2 = "SetCurrentMessage ?self1 (Some (m_sCode msg)) (of_nat (length (m_sCode msg)))"
  let ?rt2 = "put this ?self2 (put this ?self1 rt)"
  from assms(3) obtain rt3 where r: "invoke H cb this ?rt2 = Raises e rt3"
    and h: "heap rt3 this = heap ?rt2 this"
    unfolding raises_quietly_def by blast
  from h have h3: "heap rt3 this = Some ?self2" by simp
  have ty: "m_type msg = 0" and fm: "m_file_handlers_map self (m_sFilename msg) = Some cb"
    using assms(2) by (auto simp: handled_def split: if_splits)
  have "ProcessMsg H this msg rt = Throw e (put this (SetCurrentMessage ?self2 None 0) rt3)"
    using assms(1) ty fm r h3 by (simp add: ProcessMsg_def Let_def CCurrentMessage_leave_def)
  then show ?thesis by (auto simp: SetCurrentMessage_def)
qed




lemmas state_eval = NPLMiniMessage_new_def CNPLMiniState_new_def c_str_def NUL_def handled_def
  SetCurrentMessage_def CCurrentMessage_leave_def invoke_def RegisterFileHandler_def activate_def




lemma failing_handlers_0: "returns_quietly failing_handlers (Callback 0) this"
  by (simp add: returns_quietly_def invoke_def failing_handlers_def)


lemma Activate_async_valid:
  "heap rt p = Some st \<Longrightarrow>
     Activate_async rt p path code n =
       Inr (Code NPL_OK,
            put p (st\<lparr>m_input_queue := m_input_queue st @ [NPLMiniMessage_new (Some path) code n]\<rparr>) rt)"
  by (simp add: Activate_async_def activate_def)

lemma rt_w1_heap:
  "heap rt_w1 (Suc 0) = Some (CNPLMiniState_new (Some ''main''))"
  "heap rt_w1 2 = Some (CNPLMiniState_new (Some ''w1''))"
  "m_runtime_state_main rt_w1 = Some (Suc 0)"
  "m_active_state_map rt_w1 ''w1'' = Some 2"
  "m_active_state_map rt_w1 ''zz'' = None"
  by (simp_all add: pool_eval)








subsection \<open>The address parser and serializer\<close>

text \<open>
  The scanning loops stay inside the buffer when they start inside it, and so does the rest
  of \<^verbatim>\<open>FromString\<close>. For a text without terminator inside, \<open>Parse\<close> reads outside the
  buffer exactly when the text opens a parenthesis and never closes it, and then the first
  such read is one past the terminator.
\<close>

lemma scan_here:
  "char_at s i = Some c \<Longrightarrow> stop c \<or> c = NUL \<Longrightarrow> scan stop s i = Inr i"
  by (subst scan.simps) simp

lemma scan_end: "scan stop s (length s) = Inr (length s)"
  by (rule scan_here [where c = NUL]) (simp_all add: char_at_def)

lemma scan_past_end: "length s < i \<Longrightarrow> scan stop s i = Inl (OutOfBounds i)"
  by (subst scan.simps) (simp add: char_at_def)

lemma scan_step:
  "i < length s \<Longrightarrow> \<not> stop (s ! i) \<Longrightarrow> s ! i \<noteq> NUL \<Longrightarrow> scan stop s i = scan stop s (Suc i)"
  by (subst scan.simps) (simp add: char_at_def)

lemma scan_skip:
  "i + k \<le> length s \<Longrightarrow> \<forall>c \<in> set (take k (drop i s)). \<not> stop c \<and> c \<noteq> NUL
     \<Longrightarrow> scan stop s i = scan stop s (i + k)"
proof (induction k arbitrary: i)
  case 0
  then show ?case by simp
next
  case (Suc k)
  from Suc.prems(1) have lt: "i < length s" by simp
  then have d: "drop i s = s ! i # drop (Suc i) s" by (simp add: Cons_nth_drop_Suc)
  from Suc.prems(2) d have h: "\<not> stop (s ! i)" "s ! i \<noteq> NUL"
    and r: "\<forall>c \<in> set (take k (drop (Suc i) s)). \<not> stop c \<and> c \<noteq> NUL"
    by auto
  from Suc.prems(1) have "Suc i + k \<le> length s" by simp
  moreover from lt h have "scan stop s i = scan stop s (Suc i)" by (rule scan_step)
  ultimately show ?case using Suc.IH [of "Suc i"] r by simp
qed

lemma scan_to_end:
  assumes "i \<le> length s" and "\<forall>c \<in> set (drop i s). \<not> stop c \<and> c \<noteq> NUL"
  shows "scan stop s i = Inr (length s)"
proof -
  from assms have "scan stop s i = scan stop s (i + (length s - i))"
    by (intro scan_skip) simp_all
  with assms(1) show ?thesis by (simp add: scan_end)
qed

lemma scan_in_bounds:
  "i \<le> length s \<Longrightarrow> \<exists>j. scan stop s i = Inr j \<and> i \<le> j \<and> j \<le> length s"
proof (induction stop s i rule: scan.induct)
  case (1 stop s i)
  show ?case
  proof (cases "i < length s \<and> \<not> stop (s ! i) \<and> s ! i \<noteq> NUL")
    case True
    then have "scan stop s i = scan stop s (i + 1)" by (simp add: scan_step)
    moreover from True "1.IH" [of "s ! i"]
    have "\<exists>j. scan stop s (i + 1) = Inr j \<and> i + 1 \<le> j \<and> j \<le> length s"
      by (simp add: char_at_def)
    ultimately show ?thesis by auto
  next
    case False
    with "1.prems" have "scan stop s i = Inr i"
      by (subst scan.simps) (auto simp: char_at_def)
    with "1.prems" show ?thesis by simp
  qed
qed

lemma SetRelativePath_in_bounds:
  "nCount \<le> int (length sPath) \<Longrightarrow> \<exists>a. SetRelativePath self sPath nCount = Inr a"
  by (auto simp: SetRelativePath_def Let_def)

lemma FromString_tail_in_bounds:
  assumes "i0 \<le> length s"
  shows "\<exists>a. FromString_tail self s i0 nNIDIndex = Inr a"
proof -
  from scan_in_bounds [OF assms] obtain i where
    i: "scan (\<lambda>c. c = CHR '':'') s i0 = Inr i" "i \<le> length s" by blast
  show ?thesis
  proof (cases "char_at s i = Some NUL")
    case True
    with i show ?thesis by (simp add: FromString_tail_def)
  next
    case False
    with i(2) have il: "i < length s" by (auto simp: char_at_def split: if_splits)
    then have "i + 1 \<le> length s" by simp
    from scan_in_bounds [OF this] obtain j where
      j: "scan (\<lambda>c. c = CHR ''@'') s (i + 1) = Inr j" "i + 1 \<le> j" "j \<le> length s" by blast
    let ?self = "if i > nNIDIndex then self\<lparr>sNID := assign s nNIDIndex (i - nNIDIndex)\<rparr>
                 else self\<lparr>sNID := []\<rparr>"
    from j have "int j - int (i + 1) \<le> int (length (drop (i + 1) s))" by simp
    from SetRelativePath_in_bounds [OF this] obtain a where
      a: "SetRelativePath ?self (drop (i + 1) s) (int j - int (i + 1)) = Inr a" by blast
    show ?thesis
    proof (cases "char_at s j = Some NUL")
      case True
      with i False j a show ?thesis by (simp add: FromString_tail_def Let_def)
    next
      case jn: False
      with j(3) have "j + 1 \<le> length s" by (auto simp: char_at_def split: if_splits)
      from scan_in_bounds [OF this] obtain k where
        "scan (\<lambda>c. False) s (j + 1) = Inr k" by blast
      with i False j a jn show ?thesis by (simp add: FromString_tail_def Let_def)
    qed
  qed
qed

lemma Parse_fault_iff:
  assumes "NUL \<notin> set s"
  shows "(\<exists>f. Parse s = Inl f) \<longleftrightarrow> (\<exists>t. s = CHR ''('' # t \<and> CHR '')'' \<notin> set t)"
    and "\<forall>f. Parse s = Inl f \<longrightarrow> f = OutOfBounds (Suc (length s))"
proof -
  have main: "(\<exists>t. s = CHR ''('' # t \<and> CHR '')'' \<notin> set t) \<Longrightarrow> Parse s = Inl (OutOfBounds (Suc (length s)))"
  proof -
    assume "\<exists>t. s = CHR ''('' # t \<and> CHR '')'' \<notin> set t"
    then obtain t where s: "s = CHR ''('' # t" and t: "CHR '')'' \<notin> set t" by blast
    from assms s have "\<forall>c \<in> set (drop 1 s). \<not> c = CHR '')'' \<and> c \<noteq> NUL"
      using t by auto
    then have sc: "scan (\<lambda>c. c = CHR '')'') s 1 = Inr (length s)"
      using s by (intro scan_to_end) simp_all
    have "FromString_tail x s (length s + 1) (length s + 1) = Inl (OutOfBounds (Suc (length s)))" for x
      by (simp add: FromString_tail_def scan_past_end)
    with sc s show ?thesis
      by (simp add: Parse_def FromString_def char_at_def NUL_def Let_def)
  qed
  have other: "\<not> (\<exists>t. s = CHR ''('' # t \<and> CHR '')'' \<notin> set t) \<Longrightarrow> \<exists>a. Parse s = Inr a"
  proof -
    assume n: "\<not> (\<exists>t. s = CHR ''('' # t \<and> CHR '')'' \<notin> set t)"
    show ?thesis
    proof (cases "char_at s 0 = Some (CHR ''('')")
      case False
      then show ?thesis
        using FromString_tail_in_bounds [of 0 s NPLFileName_new 0]
        by (auto simp: Parse_def FromString_def)
    next
      case True
      then obtain t where s: "s = CHR ''('' # t"
        by (cases s) (auto simp: char_at_def NUL_def split: if_splits)
      with n have cp: "CHR '')'' \<in> set t" by simp
      from scan_in_bounds [of 1 s "\<lambda>c. c = CHR '')''"] s obtain j where
        j: "scan (\<lambda>c. c = CHR '')'') s 1 = Inr j" "1 \<le> j" "j \<le> length s" by auto
      have "j < length s"
      proof (rule ccontr)
        assume "\<not> j < length s"
        with j have je: "j = length s" by simp
        from cp obtain k where k: "k < length t" "t ! k = CHR '')''"
          by (auto simp: in_set_conv_nth)
        define m where "m = (LEAST k. k < length t \<and> t ! k = CHR '')'')"
        have mk: "m < length t \<and> t ! m = CHR '')''"
          unfolding m_def by (rule LeastI [of _ k]) (use k in simp)
        have ml: "\<forall>i < m. t ! i \<noteq> CHR '')''"
        proof (intro allI impI)
          fix i assume "i < m"
          then have "\<not> (i < length t \<and> t ! i = CHR '')'')"
            unfolding m_def by (rule not_less_Least)
          with \<open>i < m\<close> mk show "t ! i \<noteq> CHR '')''" by simp
        qed
        have "\<forall>c \<in> set (take m (drop 1 s)). \<not> c = CHR '')'' \<and> c \<noteq> NUL"
          using s assms ml mk by (auto simp: in_set_conv_nth)
        then have "scan (\<lambda>c. c = CHR '')'') s 1 = scan (\<lambda>c. c = CHR '')'') s (1 + m)"
          using s mk by (intro scan_skip) simp_all
        also have "\<dots> = Inr (1 + m)"
          using s mk by (intro scan_here [where c = "CHR '')''"]) (simp_all add: char_at_def)
        finally show False using j je s mk by simp
      qed
      then have "j + 1 \<le> length s" by simp
      from FromString_tail_in_bounds [OF this] j True show ?thesis
        by (auto simp: Parse_def FromString_def Let_def NUL_def)
    qed
  qed
  show "(\<exists>f. Parse s = Inl f) \<longleftrightarrow> (\<exists>t. s = CHR ''('' # t \<and> CHR '')'' \<notin> set t)"
  proof
    assume "\<exists>f. Parse s = Inl f"
    then show "\<exists>t. s = CHR ''('' # t \<and> CHR '')'' \<notin> set t"
      using other by (cases "\<exists>t. s = CHR ''('' # t \<and> CHR '')'' \<notin> set t") auto
  next
    assume "\<exists>t. s = CHR ''('' # t \<and> CHR '')'' \<notin> set t"
    from main [OF this] show "\<exists>f. Parse s = Inl f" by blast
  qed
  show "\<forall>f. Parse s = Inl f \<longrightarrow> f = OutOfBounds (Suc (length s))"
  proof (intro allI impI)
    fix f assume f: "Parse s = Inl f"
    show "f = OutOfBounds (Suc (length s))"
    proof (cases "\<exists>t. s = CHR ''('' # t \<and> CHR '')'' \<notin> set t")
      case True
      from main [OF True] f show ?thesis by simp
    next
      case False
      from other [OF False] f show ?thesis by auto
    qed
  qed
qed

text \<open>
  What \<open>Parse\<close> returns for a text without colon, with and without a state name in
  parentheses: the rest of the text is the path, as it is. Hence the value of
  \<open>Parse (ToString a)\<close> for alphabetic fields: the network id and the resolver name end up in
  the path. It is \<open>a\<close> again (up to \<open>gl\<close>) when the network id and the resolver name of \<open>a\<close>
  are empty.
\<close>

lemma alphabetic_no_delimiter:
  assumes "alphabetic s"
  shows "NUL \<notin> set s" "CHR ''('' \<notin> set s" "CHR '')'' \<notin> set s" "CHR '':'' \<notin> set s"
    "CHR ''@'' \<notin> set s"
  using assms by (auto simp: alphabetic_def NUL_def)

lemma Parse_no_colon:
  assumes "s \<noteq> []" and "hd s \<noteq> CHR ''(''" and "NUL \<notin> set s" and "CHR '':'' \<notin> set s"
  shows "Parse s = Inr \<lparr>sRuntimeStateName = [], sNID = [], sRelativePath = s, sDNSServerName = []\<rparr>"
proof -
  from assms have c0: "char_at s 0 \<noteq> Some NUL" "char_at s 0 \<noteq> Some (CHR ''('')"
    by (cases s; auto simp: char_at_def)+
  from assms have "scan (\<lambda>c. c = CHR '':'') s 0 = Inr (length s)"
    by (intro scan_to_end) auto
  then show ?thesis
    using c0 by (simp add: Parse_def FromString_def FromString_tail_def NPLFileName_new_def
        char_at_def assign_def)
qed

lemma Parse_state_no_colon:
  assumes "NUL \<notin> set name" and "CHR '')'' \<notin> set name"
    and "NUL \<notin> set rest" and "CHR '':'' \<notin> set rest"
  shows "Parse (''('' @ name @ '')'' @ rest)
           = Inr \<lparr>sRuntimeStateName = (if name = ''gl'' then [] else name), sNID = [],
                  sRelativePath = rest, sDNSServerName = []\<rparr>"
proof -
  let ?s = "''('' @ name @ '')'' @ rest"
  have len: "length ?s = length name + 2 + length rest" by simp
  have "scan (\<lambda>c. c = CHR '')'') ?s 1 = scan (\<lambda>c. c = CHR '')'') ?s (1 + length name)"
    using assms(1,2) by (intro scan_skip) auto
  also have "\<dots> = Inr (1 + length name)"
    by (rule scan_here [where c = "CHR '')''"]) (simp_all add: char_at_def nth_append)
  finally have sc: "scan (\<lambda>c. c = CHR '')'') ?s 1 = Inr (1 + length name)" .
  have dr: "drop (length name + 2) ?s = rest" by simp
  have "scan (\<lambda>c. c = CHR '':'') ?s (length name + 2) = Inr (length ?s)"
    using assms(3,4) by (intro scan_to_end) (simp_all only: dr len, auto)
  then have tl: "FromString_tail x ?s (length name + 2) (length name + 2)
                   = Inr (x\<lparr>sNID := [], sRelativePath := rest, sDNSServerName := []\<rparr>)" for x
    using dr by (simp add: FromString_tail_def char_at_def assign_def)
  have gl: "(length name + 2 = 4 \<and> char_at ?s 1 = Some (CHR ''g'') \<and> char_at ?s 2 = Some (CHR ''l''))
              \<longleftrightarrow> name = ''gl''"
  proof (cases name)
    case Nil
    then show ?thesis by simp
  next
    case (Cons a t)
    show ?thesis
    proof (cases t)
      case Nil
      with Cons show ?thesis by simp
    next
      case (Cons b u)
      with \<open>name = a # t\<close> show ?thesis
        by (cases u) (auto simp: char_at_def)
    qed
  qed
  have as: "assign ?s 1 (length name) = name" by (simp add: assign_def)
  show ?thesis
  proof (cases "name = ''gl''")
    case True
    with gl sc tl [unfolded True] show ?thesis
      by (simp add: Parse_def FromString_def NPLFileName_new_def char_at_def NUL_def Let_def)
  next
    case False
    with gl have ng: "\<not> (length name + 2 = 4 \<and> char_at ?s 1 = Some (CHR ''g'')
                          \<and> char_at ?s 2 = Some (CHR ''l''))" by simp
    have c0: "char_at ?s 0 = Some (CHR ''('')" by (simp add: char_at_def)
    have "FromString NPLFileName_new ?s
            = FromString_tail (NPLFileName_new\<lparr>sRuntimeStateName := name\<rparr>) ?s
                (length name + 2) (length name + 2)"
      unfolding FromString_def using c0 sc ng as
      by (simp add: NUL_def Let_def del: append.simps)
    with tl False show ?thesis
      by (simp add: Parse_def NPLFileName_new_def)
  qed
qed

lemma ToString_eq:
  "ToString a = (if sRuntimeStateName a = [] then [] else ''('' @ sRuntimeStateName a @ '')'')
                  @ sNID a @ sRelativePath a
                  @ (if sDNSServerName a = [] then [] else ''@'' @ sDNSServerName a)"
  by (simp add: ToString_def Let_def)

lemma Parse_ToString_alphabetic:
  assumes "alphabetic (sRuntimeStateName a)" and "alphabetic (sNID a)"
    and "alphabetic (sRelativePath a)" and "alphabetic (sDNSServerName a)"
    and "sRelativePath a \<noteq> []"
  shows "Parse (ToString a)
           = Inr \<lparr>sRuntimeStateName = (if sRuntimeStateName a = ''gl'' then [] else sRuntimeStateName a),
                  sNID = [],
                  sRelativePath = sNID a @ sRelativePath a
                     @ (if sDNSServerName a = [] then [] else ''@'' @ sDNSServerName a),
                  sDNSServerName = []\<rparr>"
proof -
  let ?rest = "sNID a @ sRelativePath a @ (if sDNSServerName a = [] then [] else ''@'' @ sDNSServerName a)"
  note d = alphabetic_no_delimiter
  have r: "NUL \<notin> set ?rest" "CHR '':'' \<notin> set ?rest" "?rest \<noteq> []"
    using d(1,4) [OF assms(2)] d(1,4) [OF assms(3)] d(1,4) [OF assms(4)] assms(5)
    by (auto simp: NUL_def)
  have h: "hd ?rest \<noteq> CHR ''(''"
    using d(2) [OF assms(2)] d(2) [OF assms(3)] assms(5)
    by (cases "sNID a"; cases "sRelativePath a"; auto)
  show ?thesis
  proof (cases "sRuntimeStateName a = []")
    case True
    then have "ToString a = ?rest" by (simp add: ToString_eq)
    with Parse_no_colon [OF r(3) h r(1,2)] True show ?thesis by simp
  next
    case False
    then have "ToString a = ''('' @ sRuntimeStateName a @ '')'' @ ?rest"
      by (simp add: ToString_eq)
    with Parse_state_no_colon [OF d(1) [OF assms(1)] d(3) [OF assms(1)] r(1,2)] show ?thesis
      by simp
  qed
qed

lemma Parse_ToString_roundtrip_local:
  assumes "alphabetic (sRuntimeStateName a)" and "alphabetic (sRelativePath a)"
    and "sRelativePath a \<noteq> []" and "sNID a = []" and "sDNSServerName a = []"
  shows "Parse (ToString a)
           = Inr (a\<lparr>sRuntimeStateName := (if sRuntimeStateName a = ''gl'' then [] else sRuntimeStateName a)\<rparr>)"
proof -
  have "alphabetic (sNID a)" "alphabetic (sDNSServerName a)"
    using assms(4,5) by (simp_all add: alphabetic_def)
  from Parse_ToString_alphabetic [OF assms(1) this(1) assms(2) this(2) assms(3)] assms(4,5)
  show ?thesis by simp
qed

text \<open>
  Claim C9: \<open>Parse\<close> never fails on any input, and every character it inspects lies within
  the input string up to and including its terminator, also for an opening parenthesis that is
  never closed.

  The code does not meet this. After the loop that looks for the closing parenthesis,
  \<^verbatim>\<open>i++\<close> is executed also when the loop stopped on the terminator. For the four characters
  \<^verbatim>\<open>(abc\<close> the terminator is at index 4, and the next loop reads \<^verbatim>\<open>sFilePath[5]\<close>.
\<close>

theorem Parse_unclosed_parenthesis_reads_past_terminator:
  "Parse ''(abc'' = Inl (OutOfBounds 5) \<and> length ''(abc'' = 4"
  by (simp add: parse_eval)

text \<open>
  Claim C2: for an address whose path is a non-empty alphabetic string and whose other fields
  are empty or alphabetic, \<open>Parse (ToString a)\<close> is \<open>a\<close> again (with the state name \<open>gl\<close>
  read back as the empty name).

  The code does not meet this. \<^verbatim>\<open>ToString\<close> writes the network id without the colon that
  its documented format \<^verbatim>\<open>[sNID:]\<close> and \<^verbatim>\<open>FromString\<close> require, so the id is read back as
  the beginning of the path. And \<^verbatim>\<open>FromString\<close>, finding no colon, keeps everything up to the
  terminator as the path, so a resolver name written after \<^verbatim>\<open>@\<close> is read back as part of the
  path.
\<close>

theorem Parse_ToString_loses_network_id:
  "ToString \<lparr>sRuntimeStateName = [], sNID = ''a'', sRelativePath = ''b'', sDNSServerName = []\<rparr> = ''ab''
   \<and> Parse (ToString \<lparr>sRuntimeStateName = [], sNID = ''a'', sRelativePath = ''b'', sDNSServerName = []\<rparr>)
     = Inr \<lparr>sRuntimeStateName = [], sNID = [], sRelativePath = ''ab'', sDNSServerName = []\<rparr>
   \<and> Parse (ToString \<lparr>sRuntimeStateName = [], sNID = [], sRelativePath = ''b'', sDNSServerName = ''c''\<rparr>)
     = Inr \<lparr>sRuntimeStateName = [], sNID = [], sRelativePath = ''b@c'', sDNSServerName = []\<rparr>"
  by (simp add: parse_eval)

text \<open>
  Claim C10: for a non-empty input without a colon, \<open>Parse\<close> leaves the network id empty, makes
  the text up to the first \<^verbatim>\<open>@\<close> the path, still reads the resolver name after \<^verbatim>\<open>@\<close>, and
  turns every backslash of the path into a forward slash.

  The code does not meet this. Without a colon it returns early: the whole text, \<^verbatim>\<open>@\<close> and
  resolver name included, is assigned to the path directly, not through \<^verbatim>\<open>SetRelativePath\<close>,
  so no backslash is replaced and the resolver name stays empty. The branch taken when a colon
  is present does both, as the second equation shows on the same text after \<^verbatim>\<open>x:\<close>.
\<close>

theorem Parse_without_colon_keeps_backslash_and_at:
  "Parse [CHR ''a'', CHR 0x5C, CHR ''b'', CHR ''@'', CHR ''c'']
     = Inr \<lparr>sRuntimeStateName = [], sNID = [],
            sRelativePath = [CHR ''a'', CHR 0x5C, CHR ''b'', CHR ''@'', CHR ''c''],
            sDNSServerName = []\<rparr>
   \<and> Parse [CHR ''x'', CHR '':'', CHR ''a'', CHR 0x5C, CHR ''b'', CHR ''@'', CHR ''c'']
     = Inr \<lparr>sRuntimeStateName = [], sNID = ''x'', sRelativePath = ''a/b'', sDNSServerName = ''c''\<rparr>"
  by (simp add: parse_eval)

subsection \<open>The pool of runtime states\<close>

text \<open>
  The set of states stays sorted and without repetition. Creating a state under a non-empty
  name that is present returns the present state, so two calls with the same non-empty name
  give the same state; creating keeps every name in the set of states; and no pool operation
  touches the scratch vector of \<^verbatim>\<open>Run\<close>. With the empty name, \<^verbatim>\<open>CreateRuntimeState\<close>
  returns the main state whenever there is one. \<^verbatim>\<open>DeleteRuntimeState\<close> returns true exactly
  when the state was in the set, and for a named state in the set it leaves the name behind.
\<close>

lemma set_insert_set [simp]: "set (set_insert p xs) = insert p (set xs)"
  by (simp add: set_insert_def set_insort_key insert_absorb)

lemma set_insert_sorted_distinct:
  "sorted xs \<Longrightarrow> distinct xs \<Longrightarrow> sorted (set_insert p xs) \<and> distinct (set_insert p xs)"
  by (simp add: set_insert_def sorted_insort distinct_insort)

lemma set_erase_sorted_distinct:
  "sorted xs \<Longrightarrow> distinct xs
     \<Longrightarrow> sorted (set_erase p xs) \<and> distinct (set_erase p xs) \<and> set (set_erase p xs) = set xs - {p}"
  by (simp add: set_erase_def sorted_remove1)

lemma CreateRuntimeState_existing_name:
  "name \<noteq> [] \<Longrightarrow> m_active_state_map rt name = Some p \<Longrightarrow> CreateRuntimeState rt name fresh = (p, rt)"
  by (simp add: CreateRuntimeState_def GetRuntimeState_def)

lemma CreateRuntimeState_same_name_twice:
  "name \<noteq> [] \<Longrightarrow>
     CreateRuntimeState (snd (CreateRuntimeState rt name f1)) name f2
       = (fst (CreateRuntimeState rt name f1), snd (CreateRuntimeState rt name f1))"
  by (auto simp: CreateRuntimeState_def GetRuntimeState_def Let_def split: option.splits)

lemma CreateRuntimeState_empty_name:
  "m_runtime_state_main rt = Some main \<Longrightarrow> CreateRuntimeState rt [] fresh = (main, rt)"
  by (simp add: CreateRuntimeState_def GetRuntimeState_def)

lemma CreateRuntimeState_names_in_pool:
  "names_in_pool rt \<Longrightarrow> names_in_pool (snd (CreateRuntimeState rt name fresh))"
  by (auto simp: names_in_pool_def CreateRuntimeState_def GetRuntimeState_def Let_def
      split: option.splits if_splits)

lemma DeleteRuntimeState_present:
  assumes "p \<in> set (m_runtime_states rt)"
  shows "DeleteRuntimeState rt (Some p)
           = Inr (True, rt\<lparr>m_runtime_states := set_erase p (m_runtime_states rt)\<rparr>)"
  using assms by (simp add: DeleteRuntimeState_def)

lemma DeleteRuntimeState_result:
  "DeleteRuntimeState rt (Some p) = Inr (r, rt') \<Longrightarrow> r \<longleftrightarrow> p \<in> set (m_runtime_states rt)"
  by (auto simp: DeleteRuntimeState_def split: if_splits option.splits)

lemma DeleteRuntimeState_breaks_names_in_pool:
  assumes "m_active_state_map rt name = Some p" and "p \<in> set (m_runtime_states rt)"
    and "distinct (m_runtime_states rt)"
  shows "\<exists>rt'. DeleteRuntimeState rt (Some p) = Inr (True, rt') \<and> \<not> names_in_pool rt'
           \<and> GetRuntimeState rt' name = (if name = [] then m_runtime_state_main rt else Some p)"
proof -
  let ?rt' = "rt\<lparr>m_runtime_states := set_erase p (m_runtime_states rt)\<rparr>"
  from assms(3) have "p \<notin> set (set_erase p (m_runtime_states rt))"
    by (simp add: set_erase_def)
  with assms(1) have "\<not> names_in_pool ?rt'"
    by (auto simp: names_in_pool_def)
  with DeleteRuntimeState_present [OF assms(2)] assms(1) show ?thesis
    by (simp add: GetRuntimeState_def)
qed

lemma scratch_untouched:
  "m_temp_rts_pool CNPLMiniRuntime_empty = []"
  "m_temp_rts_pool (snd (CreateRuntimeState rt name fresh)) = m_temp_rts_pool rt"
  "m_temp_rts_pool (Init rt fresh) = m_temp_rts_pool rt"
  "DeleteRuntimeState rt ptr = Inr (r, rt') \<Longrightarrow> m_temp_rts_pool rt' = m_temp_rts_pool rt"
  "Activate rt from target code n = Inr (v, rt') \<Longrightarrow> m_temp_rts_pool rt' = m_temp_rts_pool rt"
  by (auto simp: CNPLMiniRuntime_empty_def CreateRuntimeState_def Init_def DeleteRuntimeState_def
      Activate_def Activate_async_def activate_def Let_def
      split: option.splits if_splits sum.splits prod.splits)

text \<open>
  Claim C4: \<open>CreateState\<close> with a non-empty name that is present returns the existing state,
  and with the empty name it always creates a fresh anonymous state, never the main state.

  The code does not meet the second half. \<^verbatim>\<open>CreateRuntimeState\<close> first asks
  \<^verbatim>\<open>GetRuntimeState\<close>, which answers the empty name with the main state; once the runtime is
  constructed that pointer is not null, so nothing is created and the main state is returned,
  every time. The documentation of the function says that the empty name gives an anonymous
  state.
\<close>

theorem CreateRuntimeState_empty_name_returns_main:
  "m_runtime_state_main rt_init = Some 1
   \<and> CreateRuntimeState rt_init [] 2 = (1, rt_init)
   \<and> fst (CreateRuntimeState (snd (CreateRuntimeState rt_init [] 2)) [] 3) = 1"
  by (simp add: pool_eval)

text \<open>
  Claim C5: every pool operation keeps every entry of the name map present in the set of
  states; \<open>DeleteState\<close> on a named state that is in the set removes it from the set and from
  the name map, and returns true exactly when the removal from the set succeeded.

  The code does not meet this. \<^verbatim>\<open>DeleteRuntimeState\<close> returns true right after erasing the
  state from the set; the statement that erases the name is only reached when the state was
  not in the set. After deleting the state \<open>w1\<close> its name still resolves to it, and the name
  map has an entry that is no longer in the set.
\<close>

theorem DeleteState_leaves_name_registered:
  "2 \<in> set (m_runtime_states rt_w1) \<and> m_active_state_map rt_w1 ''w1'' = Some 2
   \<and> (case DeleteState rt_w1 (Some 2) of
        Inl f \<Rightarrow> False
      | Inr (r, rt) \<Rightarrow> r \<and> 2 \<notin> set (m_runtime_states rt)
                       \<and> m_active_state_map rt ''w1'' = Some 2
                       \<and> GetRuntimeState rt ''w1'' = Some 2)"
  by (simp add: pool_eval)

subsection \<open>The mailbox: Process and RegisterFileHandler\<close>






text \<open>
  Claim C8, as the specification has it: registering a handler for a file that has one
  replaces it, and registering a null callback removes the registration, so that later
  messages for the file are dropped silently.

  The second half fails: \<^verbatim>\<open>RegisterFileHandler\<close> only assigns, and nothing in the source
  erases from the handler table. An empty callback is stored like any other; the file stays
  registered, and dispatching a message to it calls the empty \<^verbatim>\<open>boost::function\<close>, which
  throws \<^verbatim>\<open>bad_function_call\<close> out of \<open>Process\<close>.
\<close>

theorem RegisterFileHandler_null_counterexample:
  "m_file_handlers_map (snd (RegisterFileHandler st_reg (Some ''f.lua'') EmptyCallback)) ''f.lua''
     = Some EmptyCallback
   \<and> (case Process quiet_handlers 1
             (put 1 ((snd (RegisterFileHandler st_reg (Some ''f.lua'') EmptyCallback))
                       \<lparr>m_input_queue := [NPLMiniMessage_new (Some ''f.lua'') (Some ''hi'') 0]\<rparr>) rt_init) of
        Some (Throw e rt') \<Rightarrow> e = bad_function_call
      | _ \<Rightarrow> False)"
  by (simp add: Process_def Process_loop.simps ProcessMsg_def st_reg_def quiet_handlers_def
      state_eval Let_def)

text \<open>
  Claim C8, amended: \<open>RegisterFileHandler\<close> with a file name succeeds and stores the given
  callback under the name, whatever was registered before, so that a later message for that
  file invokes exactly the latest callback; a null callback is stored in the same way, the
  file stays registered, and a later message for it raises \<^verbatim>\<open>bad_function_call\<close>.
\<close>

theorem RegisterFileHandler_overwrites:
  assumes "heap rt this = Some (snd (RegisterFileHandler self (Some f) cb))"
    and "m_type msg = 0" and "m_sFilename msg = c_str f"
    and "cb = EmptyCallback \<or> returns_quietly H cb this"
  shows "fst (RegisterFileHandler self (Some f) cb)
       \<and> m_file_handlers_map (snd (RegisterFileHandler self (Some f) cb)) (c_str f) = Some cb
       \<and> (\<exists>rt'. ProcessMsg H this msg rt =
                  (case cb of
                     Callback h \<Rightarrow> Normal [(cb, this, m_sCode msg)] rt'
                   | EmptyCallback \<Rightarrow> Throw bad_function_call rt'))"
proof -
  let ?self' = "snd (RegisterFileHandler self (Some f) cb)"
  have r: "fst (RegisterFileHandler self (Some f) cb)"
    and m: "m_file_handlers_map ?self' (c_str f) = Some cb"
    by (simp_all add: RegisterFileHandler_def)
  from m assms(2,3) have hd: "handled (m_file_handlers_map ?self') msg = Some cb"
    by (simp add: handled_def)
  show ?thesis
  proof (cases cb)
    case EmptyCallback
    then have "raises_quietly H cb this bad_function_call"
      by (simp add: raises_quietly_def invoke_def)
    from ProcessMsg_raises [OF assms(1) hd this]
    show ?thesis using r m EmptyCallback by auto
  next
    case (Callback h)
    with assms(4) have "returns_quietly H cb this" by simp
    from ProcessMsg_returns [OF assms(1) hd this]
    show ?thesis using r m Callback by auto
  qed
qed

theorem RegisterFileHandler_overwrites_witness:
  "(\<exists>rt'. ProcessMsg failing_handlers 1 (NPLMiniMessage_new (Some ''f.lua'') (Some ''hi'') 0)
            (put 1 (snd (RegisterFileHandler (snd (RegisterFileHandler st_reg (Some ''f.lua'') (Callback 7)))
                                             (Some ''f.lua'') (Callback 0))) rt_init)
          = Normal [(Callback 0, 1, ''hi'')] rt')
   \<and> (\<exists>rt'. ProcessMsg failing_handlers 1 (NPLMiniMessage_new (Some ''f.lua'') (Some ''hi'') 0)
            (put 1 (snd (RegisterFileHandler st_reg (Some ''f.lua'') EmptyCallback)) rt_init)
          = Throw bad_function_call rt')
   \<and> m_file_handlers_map (snd (RegisterFileHandler st_reg (Some ''f.lua'') EmptyCallback)) ''f.lua''
       = Some EmptyCallback"
proof -
  let ?msg = "NPLMiniMessage_new (Some ''f.lua'') (Some ''hi'') 0"
  let ?s7 = "snd (RegisterFileHandler st_reg (Some ''f.lua'') (Callback 7))"
  have t: "m_type ?msg = 0" and n: "m_sFilename ?msg = c_str ''f.lua''"
    by (simp_all add: NPLMiniMessage_new_def)
  have h1: "heap (put 1 (snd (RegisterFileHandler ?s7 (Some ''f.lua'') (Callback 0))) rt_init) 1
              = Some (snd (RegisterFileHandler ?s7 (Some ''f.lua'') (Callback 0)))"
    by simp
  have h2: "heap (put 1 (snd (RegisterFileHandler st_reg (Some ''f.lua'') EmptyCallback)) rt_init) 1
              = Some (snd (RegisterFileHandler st_reg (Some ''f.lua'') EmptyCallback))"
    by simp
  have c1: "Callback 0 = EmptyCallback \<or> returns_quietly failing_handlers (Callback 0) 1"
    by (simp add: failing_handlers_0)
  have c2: "EmptyCallback = EmptyCallback \<or> returns_quietly failing_handlers EmptyCallback 1"
    by simp
  from RegisterFileHandler_overwrites [OF h1 t n c1]
       RegisterFileHandler_overwrites [OF h2 t n c2]
  show ?thesis
    by (simp add: NPLMiniMessage_new_def c_str_def NUL_def)
qed

subsection \<open>Routing of Activate\<close>

text \<open>
  Claim C1, as the specification has it: \<open>Activate\<close> answers a non-empty network id with the
  status "not supported", otherwise enqueues into the named state (with an error status when
  the name is unknown), otherwise into the sender's state or, without sender, into the main
  state; and this precedence holds whether or not a sender is given.

  Without a sender the source goes to the main state before it looks at the address at all:
  a target with a network id and a state name, and a target with an unknown state name, are
  both enqueued into the main state with the status \<^verbatim>\<open>NPL_OK\<close>.
\<close>

theorem Activate_without_sender_counterexample:
  "Parse ''(w1)n:script/x.lua''
     = Inr \<lparr>sRuntimeStateName = ''w1'', sNID = ''n'', sRelativePath = ''script/x.lua'', sDNSServerName = []\<rparr>
   \<and> Activate rt_w1 None (Some ''(w1)n:script/x.lua'') (Some ''hi'') 0
     = Inr (Code NPL_OK, put 1 ((CNPLMiniState_new (Some ''main''))
              \<lparr>m_input_queue := [\<lparr>m_sFilename = ''script/x.lua'', m_sCode = ''hi'', m_type = 0\<rparr>]\<rparr>) rt_w1)
   \<and> Activate rt_w1 None (Some ''(zz)script/x.lua'') (Some ''hi'') 0
     = Inr (Code NPL_OK, put 1 ((CNPLMiniState_new (Some ''main''))
              \<lparr>m_input_queue := [\<lparr>m_sFilename = ''script/x.lua'', m_sCode = ''hi'', m_type = 0\<rparr>]\<rparr>) rt_w1)"
  by (simp add: Activate_def Activate_async_def activate_def rt_w1_heap parse_eval
      NPLMiniMessage_new_def CNPLMiniState_new_def)

text \<open>
  Claim C1, amended: for a target text that parses to the address \<open>a\<close>: with a sender,
  \<open>Activate\<close> returns \<^verbatim>\<open>NPL_Error\<close> and enqueues nothing when the network id is not empty;
  otherwise, when the state name is not empty, it enqueues into the state of that name, and
  returns \<open>-1\<close> and enqueues nothing when there is none; otherwise it enqueues into the
  sender's state. Without a sender it enqueues into the main state, whatever the network id
  and the state name are. Enqueueing appends the message, with the relative path as file
  name, to the mailbox of the state and returns \<^verbatim>\<open>NPL_OK\<close>.
\<close>

theorem Activate_routing_precedence:
  assumes "Parse f = Inr a"
  shows "Activate rt (Some from) (Some f) code n =
           (if sNID a \<noteq> [] then Inr (Code NPL_Error, rt)
            else if sRuntimeStateName a \<noteq> [] then
              (case m_active_state_map rt (sRuntimeStateName a) of
                 None \<Rightarrow> Inr (Literal (- 1), rt)
               | Some rts \<Rightarrow> Activate_async rt rts (sRelativePath a) code n)
            else Activate_async rt from (sRelativePath a) code n)
       \<and> Activate rt None (Some f) code n =
           (case m_runtime_state_main rt of
              None \<Rightarrow> Inl NullPointer
            | Some main \<Rightarrow> Activate_async rt main (sRelativePath a) code n)
       \<and> (\<forall>p st path. heap rt p = Some st \<longrightarrow>
             Activate_async rt p path code n =
               Inr (Code NPL_OK,
                    put p (st\<lparr>m_input_queue :=
                                m_input_queue st @ [NPLMiniMessage_new (Some path) code n]\<rparr>) rt))"
  using assms
  by (auto simp: Activate_def GetRuntimeState_def Activate_async_valid split: option.splits)

theorem Activate_routing_precedence_witness:
  "Activate rt_w1 (Some 2) (Some ''script/x.lua'') (Some ''hi'') 0
     = Inr (Code NPL_OK, put 2 ((CNPLMiniState_new (Some ''w1''))
              \<lparr>m_input_queue := [\<lparr>m_sFilename = ''script/x.lua'', m_sCode = ''hi'', m_type = 0\<rparr>]\<rparr>) rt_w1)
   \<and> Activate rt_w1 (Some 1) (Some ''(w1)script/x.lua'') (Some ''hi'') 0
     = Inr (Code NPL_OK, put 2 ((CNPLMiniState_new (Some ''w1''))
              \<lparr>m_input_queue := [\<lparr>m_sFilename = ''script/x.lua'', m_sCode = ''hi'', m_type = 0\<rparr>]\<rparr>) rt_w1)
   \<and> Activate rt_w1 (Some 1) (Some ''(zz)script/x.lua'') (Some ''hi'') 0 = Inr (Literal (- 1), rt_w1)
   \<and> Activate rt_w1 (Some 2) (Some ''(w1)n:script/x.lua'') (Some ''hi'') 0 = Inr (Code NPL_Error, rt_w1)
   \<and> Activate rt_w1 None (Some ''script/x.lua'') (Some ''hi'') 0
     = Inr (Code NPL_OK, put 1 ((CNPLMiniState_new (Some ''main''))
              \<lparr>m_input_queue := [\<lparr>m_sFilename = ''script/x.lua'', m_sCode = ''hi'', m_type = 0\<rparr>]\<rparr>) rt_w1)"
proof -
  have p1: "Parse ''script/x.lua''
              = Inr \<lparr>sRuntimeStateName = [], sNID = [], sRelativePath = ''script/x.lua'', sDNSServerName = []\<rparr>"
    by (simp add: parse_eval)
  have p2: "Parse ''(w1)script/x.lua''
              = Inr \<lparr>sRuntimeStateName = ''w1'', sNID = [], sRelativePath = ''script/x.lua'', sDNSServerName = []\<rparr>"
    by (simp add: parse_eval)
  have p3: "Parse ''(zz)script/x.lua''
              = Inr \<lparr>sRuntimeStateName = ''zz'', sNID = [], sRelativePath = ''script/x.lua'', sDNSServerName = []\<rparr>"
    by (simp add: parse_eval)
  have p4: "Parse ''(w1)n:script/x.lua''
              = Inr \<lparr>sRuntimeStateName = ''w1'', sNID = ''n'', sRelativePath = ''script/x.lua'', sDNSServerName = []\<rparr>"
    by (simp add: parse_eval)
  show ?thesis
    using Activate_routing_precedence [OF p1, of rt_w1 2 "Some ''hi''" 0]
      Activate_routing_precedence [OF p2, of rt_w1 1 "Some ''hi''" 0]
      Activate_routing_precedence [OF p3, of rt_w1 1 "Some ''hi''" 0]
      Activate_routing_precedence [OF p4, of rt_w1 2 "Some ''hi''" 0]
    by (simp add: rt_w1_heap Activate_async_valid NPLMiniMessage_new_def c_str_def NUL_def
        CNPLMiniState_new_def)
qed

subsection \<open>The cycle of Run\<close>

text \<open>
  An exception of a handler leaves \<^verbatim>\<open>Run\<close> before the scratch vector is cleared: the
  vector is a member of the runtime and keeps the states of the aborted cycle.
\<close>

lemma Run_aborted_keeps_scratch:
  "m_temp_rts_pool rt_fail = []
   \<and> (case Run failing_handlers rt_fail of
        Some (Throw e rt') \<Rightarrow> e = handler_exception 7 \<and> m_temp_rts_pool rt' = [1]
      | _ \<Rightarrow> False)"
  by (simp add: Run_def Process_def Process_loop.simps ProcessMsg_def rt_fail_def st_fail_def
      pool_eval failing_handlers_def state_eval Let_def)






end
